theory Spec2Isabelle
  imports Complex_Main "HOL-Library.Sublist"
begin

section \<open>Python values used by the PAM correction\<close>

subsection \<open>Exceptions\<close>

text \<open>
  The exceptions the function can end with. \<open>KeyError\<close> carries the missing header
  keyword; \<open>Exception\<close> carries its message (the source raises
  \<^verbatim>\<open>Exception('Chip case not handled.')\<close>); \<open>ValueError\<close> is NumPy's
  "operands could not be broadcast together".
\<close>

datatype pyerror =
    KeyError string
  | TypeError
  | ValueError
  | FileNotFoundError
  | Exception string

subsection \<open>Double-precision numbers\<close>

text \<open>
  A finite Python \<^verbatim>\<open>float\<close> is a rational number with a 53-bit significand.
  \<open>fl64\<close> rounds an exact rational to the nearest such number, ties to the even
  significand (the exponent range is not bounded here: overflow to infinity and
  subnormal numbers are outside the model).
\<close>

text \<open>Python's \<^verbatim>\<open>int.bit_length\<close> on a non-negative integer.\<close>

function bit_length :: "int \<Rightarrow> int" where
  "bit_length n = (if n \<le> 0 then 0 else bit_length (n div 2) + 1)"
  by pat_completeness auto
termination
  by (relation "measure nat") auto

declare bit_length.simps [simp del]

definition pow2 :: "int \<Rightarrow> rat" where
  "pow2 e = (if 0 \<le> e then 2 ^ nat e else 1 / 2 ^ nat (- e))"

definition round_half_even :: "rat \<Rightarrow> int" where
  "round_half_even x =
     (let f = \<lfloor>x\<rfloor>; d = x - of_int f
      in if d < 1 / 2 then f
         else if 1 / 2 < d then f + 1
         else if even f then f else f + 1)"

text \<open>
  The binary exponent of a positive rational \<open>a = p / q\<close>: \<open>\<lfloor>log\<^sub>2 a\<rfloor>\<close>. It is one of
  \<open>d - 1\<close> and \<open>d\<close> for \<open>d\<close> the difference of the bit lengths of \<open>p\<close> and \<open>q\<close>.
\<close>

definition floor_log2_from :: "rat \<Rightarrow> int \<Rightarrow> int" where
  "floor_log2_from a d = (if pow2 d \<le> a then d else d - 1)"

definition floor_log2 :: "rat \<Rightarrow> int" where
  "floor_log2 a = (case quotient_of a of (p, q) \<Rightarrow> floor_log2_from a (bit_length p - bit_length q))"

text \<open>The nearest multiple of \<open>2\<^sup>e\<close>, ties to the even multiple.\<close>

definition round_to_multiple :: "rat \<Rightarrow> int \<Rightarrow> rat" where
  "round_to_multiple a e = of_int (round_half_even (a / pow2 e)) * pow2 e"

text \<open>
  Rounding to 53 significant bits: for \<open>n = floor_log2 \<bar>x\<bar>\<close> the magnitude lies between
  \<open>2 ^ n\<close> and \<open>2 ^ (n + 1)\<close>, where doubles are \<open>2 ^ (n - 52)\<close> apart.
\<close>

definition fl64 :: "rat \<Rightarrow> rat" where
  "fl64 x = (if x = 0 then 0 else sgn x * round_to_multiple \<bar>x\<bar> (floor_log2 \<bar>x\<bar> - 52))"

text \<open>Python's \<^verbatim>\<open>int(x)\<close> on a float: truncation toward zero.\<close>

definition py_int :: "rat \<Rightarrow> int" where
  "py_int x = (if x < 0 then \<lceil>x\<rceil> else \<lfloor>x\<rfloor>)"

subsection \<open>Header cards\<close>

text \<open>
  A FITS header maps a keyword to an integer, a real, a logical or a string value;
  \<^verbatim>\<open>scihdr[key]\<close> raises \<open>KeyError\<close> for a keyword that is not there.
\<close>

datatype hval = HInt int | HFloat rat | HBool bool | HStr string

type_synonym header = "string \<rightharpoonup> hval"

definition getitem :: "header \<Rightarrow> string \<Rightarrow> pyerror + hval" where
  "getitem scihdr key =
     (case scihdr key of None \<Rightarrow> Inl (KeyError key) | Some v \<Rightarrow> Inr v)"

text \<open>
  \<^verbatim>\<open>np.abs\<close> of a Python integer. An integer that fits 64 bits becomes an
  \<^verbatim>\<open>int64\<close>, whose absolute value wraps at the least value: \<^verbatim>\<open>np.abs(-2**63)\<close> is
  \<open>-2\<^sup>6\<^sup>3\<close> again. Every other integer has its exact absolute value (from \<open>2\<^sup>6\<^sup>3\<close> on as an
  unsigned or a Python integer).
\<close>

definition np_abs_int :: "int \<Rightarrow> int" where
  "np_abs_int i = (if i = - (2 ^ 63) then - (2 ^ 63) else \<bar>i\<bar>)"

text \<open>
  \<^verbatim>\<open>int(np.abs(v))\<close>: the absolute value, truncated toward zero. NumPy has no
  absolute value for a string. (A real card is taken to be finite.)
\<close>

fun int_abs :: "hval \<Rightarrow> pyerror + int" where
  "int_abs (HInt i) = Inr (np_abs_int i)"
| "int_abs (HFloat x) = Inr (py_int \<bar>x\<bar>)"
| "int_abs (HBool b) = Inr (if b then 1 else 0)"
| "int_abs (HStr s) = Inl TypeError"

text \<open>
  \<^verbatim>\<open>int(x0 + v)\<close> for a Python integer \<open>x0\<close>: integer addition for an integer or
  logical card; for a real card \<open>x0\<close> is converted to a float and the sum is rounded.
\<close>

fun int_add :: "int \<Rightarrow> hval \<Rightarrow> pyerror + int" where
  "int_add x0 (HInt n) = Inr (x0 + n)"
| "int_add x0 (HFloat x) = Inr (py_int (fl64 (fl64 (of_int x0) + x)))"
| "int_add x0 (HBool b) = Inr (x0 + (if b then 1 else 0))"
| "int_add x0 (HStr s) = Inl TypeError"

text \<open>\<^verbatim>\<open>v == n\<close> for an integer literal \<open>n\<close>.\<close>

fun eq_int :: "hval \<Rightarrow> int \<Rightarrow> bool" where
  "eq_int (HInt i) n = (i = n)"
| "eq_int (HFloat x) n = (x = of_int n)"
| "eq_int (HBool b) n = ((if b then 1 else 0) = n)"
| "eq_int (HStr s) n = False"

section \<open>Two-dimensional NumPy arrays\<close>

text \<open>
  An array of shape \<open>(length rows, ncols)\<close>; the column count is kept apart from the rows
  because an array without rows still has one.
\<close>

record 'a ndarray =
  ncols :: nat
  rows :: "'a list list"

definition nrows :: "'a ndarray \<Rightarrow> nat" where
  "nrows A = length (rows A)"

definition shape :: "'a ndarray \<Rightarrow> nat \<times> nat" where
  "shape A = (nrows A, ncols A)"

definition wf_ndarray :: "'a ndarray \<Rightarrow> bool" where
  "wf_ndarray A = list_all (\<lambda>r. length r = ncols A) (rows A)"

definition array2 :: "'a list list \<Rightarrow> 'a ndarray" where
  "array2 rs = \<lparr>ncols = (case rs of [] \<Rightarrow> 0 | r # _ \<Rightarrow> length r), rows = rs\<rparr>"

subsection \<open>Basic slicing\<close>

text \<open>
  \<^verbatim>\<open>slice(start, stop).indices(n)\<close> with step 1: a negative bound counts from the end,
  and both bounds are clipped to \<open>0..n\<close>; nothing is raised for a bound out of range.
\<close>

definition slice_indices :: "int \<Rightarrow> int \<Rightarrow> nat \<Rightarrow> nat \<times> nat" where
  "slice_indices start stop n =
     (let clip = (\<lambda>i. if i < 0 then max (i + int n) 0 else min i (int n))
      in (nat (clip start), nat (clip stop)))"

definition slice_len :: "int \<Rightarrow> int \<Rightarrow> nat \<Rightarrow> nat" where
  "slice_len start stop n = (case slice_indices start stop n of (a, b) \<Rightarrow> b - a)"

definition py_slice :: "int \<Rightarrow> int \<Rightarrow> 'a list \<Rightarrow> 'a list" where
  "py_slice start stop xs =
     (case slice_indices start stop (length xs) of (a, b) \<Rightarrow> take (b - a) (drop a xs))"

text \<open>\<^verbatim>\<open>A[y0:y1, x0:x1]\<close>\<close>

definition getslice :: "'a ndarray \<Rightarrow> int \<Rightarrow> int \<Rightarrow> int \<Rightarrow> int \<Rightarrow> 'a ndarray" where
  "getslice A y0 y1 x0 x1 =
     \<lparr>ncols = slice_len x0 x1 (ncols A),
      rows = map (py_slice x0 x1) (py_slice y0 y1 (rows A))\<rparr>"

subsection \<open>Elementwise product with broadcasting\<close>

text \<open>
  Two axis lengths are compatible when they are equal or one of them is 1; the axis of
  length 1 is then repeated to the other length (which may be 0).
\<close>

definition broadcast_dim :: "nat \<Rightarrow> nat \<Rightarrow> nat option" where
  "broadcast_dim m n =
     (if m = n then Some m else if m = 1 then Some n else if n = 1 then Some m else None)"

definition stretch :: "nat \<Rightarrow> 'b list \<Rightarrow> 'b list" where
  "stretch n xs = (case xs of [x] \<Rightarrow> replicate n x | _ \<Rightarrow> xs)"

definition np_multiply :: "('a::times) ndarray \<Rightarrow> 'a ndarray \<Rightarrow> pyerror + 'a ndarray" where
  "np_multiply A B =
     (case broadcast_dim (nrows A) (nrows B) of
        None \<Rightarrow> Inl ValueError
      | Some h \<Rightarrow>
          (case broadcast_dim (ncols A) (ncols B) of
             None \<Rightarrow> Inl ValueError
           | Some w \<Rightarrow>
               Inr \<lparr>ncols = w,
                    rows = map2 (\<lambda>ra rb. map2 (*) (stretch w ra) (stretch w rb))
                             (stretch h (rows A)) (stretch h (rows B))\<rparr>))"

section \<open>The PAM correction\<close>

text \<open>
  The files under \<^verbatim>\<open>pamdir\<close>: \<^verbatim>\<open>fits.getdata(path)\<close> returns the image array of
  the file at \<open>path\<close> and raises \<open>FileNotFoundError\<close> when there is none.
\<close>

type_synonym 'a files = "string \<rightharpoonup> 'a ndarray"

definition fits_getdata :: "'a files \<Rightarrow> string \<Rightarrow> pyerror + 'a ndarray" where
  "fits_getdata fs path =
     (case fs path of None \<Rightarrow> Inl FileNotFoundError | Some A \<Rightarrow> Inr A)"

text \<open>
  The four corner coordinates, in the order the source computes them:
  \<^verbatim>\<open>
    x0 = int(np.abs(scihdr['LTV1']))
    y0 = int(np.abs(scihdr['LTV2']))
    x1 = int(x0 + scihdr['NAXIS1'])
    y1 = int(y0 + scihdr['NAXIS2'])
  \<close>
  The result is \<open>(x0, y0, x1, y1)\<close>.
\<close>

definition subarray_corners :: "header \<Rightarrow> pyerror + (int \<times> int \<times> int \<times> int)" where
  "subarray_corners scihdr =
     (case getitem scihdr ''LTV1'' of Inl e \<Rightarrow> Inl e | Inr ltv1 \<Rightarrow>
     (case int_abs ltv1 of Inl e \<Rightarrow> Inl e | Inr x0 \<Rightarrow>
     (case getitem scihdr ''LTV2'' of Inl e \<Rightarrow> Inl e | Inr ltv2 \<Rightarrow>
     (case int_abs ltv2 of Inl e \<Rightarrow> Inl e | Inr y0 \<Rightarrow>
     (case getitem scihdr ''NAXIS1'' of Inl e \<Rightarrow> Inl e | Inr naxis1 \<Rightarrow>
     (case int_add x0 naxis1 of Inl e \<Rightarrow> Inl e | Inr x1 \<Rightarrow>
     (case getitem scihdr ''NAXIS2'' of Inl e \<Rightarrow> Inl e | Inr naxis2 \<Rightarrow>
     (case int_add y0 naxis2 of Inl e \<Rightarrow> Inl e | Inr y1 \<Rightarrow>
        Inr (x0, y0, x1, y1)))))))))"

text \<open>
  One branch of the chip dispatch:
  \<^verbatim>\<open>
    pam = fits.getdata(pamdir + name)
    pamcorr_data = data * pam[y0:y1, x0:x1]
  \<close>
\<close>

definition pam_product ::
  "('a::times) ndarray \<Rightarrow> 'a files \<Rightarrow> string \<Rightarrow> int \<times> int \<times> int \<times> int \<Rightarrow> pyerror + 'a ndarray"
where
  "pam_product data fs path c =
     (case c of (x0, y0, x1, y1) \<Rightarrow>
     (case fits_getdata fs path of Inl e \<Rightarrow> Inl e | Inr pam \<Rightarrow>
        np_multiply data (getslice pam y0 y1 x0 x1)))"

text \<open>
  The function itself. \<^verbatim>\<open>np.copy(data)\<close> yields an array with the same contents, so
  on values it is the identity; the version on a store of arrays below allocates the copy.
  The header is indexed again by the \<^verbatim>\<open>elif\<close>.
\<close>

definition make_PAMcorr_image_UVIS ::
  "('a::times) ndarray \<Rightarrow> header \<Rightarrow> string \<Rightarrow> 'a files \<Rightarrow> pyerror + 'a ndarray"
where
  "make_PAMcorr_image_UVIS data scihdr pamdir fs =
     (case subarray_corners scihdr of Inl e \<Rightarrow> Inl e | Inr c \<Rightarrow>
     (case getitem scihdr ''CCDCHIP'' of Inl e \<Rightarrow> Inl e | Inr chip \<Rightarrow>
        if eq_int chip 1 then pam_product data fs (pamdir @ ''UVIS1wfc3_map.fits'') c
        else (case getitem scihdr ''CCDCHIP'' of Inl e \<Rightarrow> Inl e | Inr chip' \<Rightarrow>
          if eq_int chip' 2 then pam_product data fs (pamdir @ ''UVIS2wfc3_map.fits'') c
          else Inl (Exception ''Chip case not handled.''))))"

text \<open>The file the dispatch reads for a given \<^verbatim>\<open>CCDCHIP\<close> card, if any.\<close>

definition selected_map_path :: "hval \<Rightarrow> string \<Rightarrow> string option" where
  "selected_map_path chip pamdir =
     (if eq_int chip 1 then Some (pamdir @ ''UVIS1wfc3_map.fits'')
      else if eq_int chip 2 then Some (pamdir @ ''UVIS2wfc3_map.fits'')
      else None)"

text \<open>\<^verbatim>\<open>k * image\<close> for a scalar \<open>k\<close>.\<close>

definition scalar_multiply :: "('a::times) \<Rightarrow> 'a ndarray \<Rightarrow> 'a ndarray" where
  "scalar_multiply k A = \<lparr>ncols = ncols A, rows = map (map ((*) k)) (rows A)\<rparr>"

definition cells :: "'a ndarray \<Rightarrow> 'a list" where
  "cells A = concat (rows A)"

section \<open>The correction on a store of arrays\<close>

text \<open>
  Arrays are objects: the caller passes a reference to \<^verbatim>\<open>data\<close>, and the function
  returns a reference to its result. The store is the list of all array buffers, a
  reference is an index into it, and the files are part of the state. Allocation appends
  a buffer. A slice is a view of its base array: it reads the base buffer and allocates
  nothing.
\<close>

record 'a world =
  heap :: "'a ndarray list"
  files :: "'a files"

definition alloc :: "'a ndarray \<Rightarrow> 'a world \<Rightarrow> nat \<times> 'a world" where
  "alloc A w = (length (heap w), w\<lparr>heap := heap w @ [A]\<rparr>)"

text \<open>\<^verbatim>\<open>np.copy(a)\<close>\<close>

definition np_copy :: "nat \<Rightarrow> 'a world \<Rightarrow> nat \<times> 'a world" where
  "np_copy a w = alloc (heap w ! a) w"

definition pam_product_st ::
  "nat \<Rightarrow> string \<Rightarrow> int \<times> int \<times> int \<times> int \<Rightarrow> ('a::times) world \<Rightarrow> (pyerror + nat) \<times> 'a world"
where
  "pam_product_st data path c w =
     (case c of (x0, y0, x1, y1) \<Rightarrow>
     (case fits_getdata (files w) path of Inl e \<Rightarrow> (Inl e, w) | Inr A \<Rightarrow>
     (case alloc A w of (pam, w') \<Rightarrow>
     (case np_multiply (heap w' ! data) (getslice (heap w' ! pam) y0 y1 x0 x1) of
        Inl e \<Rightarrow> (Inl e, w')
      | Inr R \<Rightarrow> (case alloc R w' of (pamcorr_data, w'') \<Rightarrow> (Inr pamcorr_data, w''))))))"

definition make_PAMcorr_image_UVIS_st ::
  "nat \<Rightarrow> header \<Rightarrow> string \<Rightarrow> ('a::times) world \<Rightarrow> (pyerror + nat) \<times> 'a world"
where
  "make_PAMcorr_image_UVIS_st data0 scihdr pamdir w0 =
     (case np_copy data0 w0 of (data, w) \<Rightarrow>
     (case subarray_corners scihdr of Inl e \<Rightarrow> (Inl e, w) | Inr c \<Rightarrow>
     (case getitem scihdr ''CCDCHIP'' of Inl e \<Rightarrow> (Inl e, w) | Inr chip \<Rightarrow>
        if eq_int chip 1 then pam_product_st data (pamdir @ ''UVIS1wfc3_map.fits'') c w
        else (case getitem scihdr ''CCDCHIP'' of Inl e \<Rightarrow> (Inl e, w) | Inr chip' \<Rightarrow>
          if eq_int chip' 2 then pam_product_st data (pamdir @ ''UVIS2wfc3_map.fits'') c w
          else (Inl (Exception ''Chip case not handled.''), w)))))"

section \<open>Double-precision pixels\<close>

text \<open>
  The function is polymorphic in the pixel type: it uses the pixels only through their
  product, and every general property below is proved for any type with a product.
  \<open>binary64\<close> is the instance used to evaluate the examples: pixel values as finite
  doubles in the normal range, where the product of two pixels is the exact product
  rounded by \<open>fl64\<close>. A value \<open>B64 x\<close> stands for a double when \<open>fl64 x = x\<close>. This
  instance has no infinity and no NaN, does not overflow and has no subnormal numbers,
  and it is not the 32-bit float of the archive's images; the examples stay within small
  values that every binary format holds, or, for the rounding example, within the
  normal range of doubles.
\<close>

datatype binary64 = B64 rat

fun is_double :: "binary64 \<Rightarrow> bool" where
  "is_double (B64 x) = (fl64 x = x)"

instantiation binary64 :: "{times, one}"
begin

fun times_binary64 :: "binary64 \<Rightarrow> binary64 \<Rightarrow> binary64" where
  "times_binary64 (B64 x) (B64 y) = B64 (fl64 (x * y))"

definition one_binary64 :: binary64 where
  "one_binary64 = B64 1"

instance ..

end

section \<open>Notions used to state the properties\<close>




text \<open>
  The contents of the map the dispatch selects: none when the chip card is missing or
  names no supported chip, or when the selected file is not there.
\<close>

definition selected_map :: "header \<Rightarrow> string \<Rightarrow> 'a files \<Rightarrow> 'a ndarray option" where
  "selected_map scihdr pamdir fs =
     (case scihdr ''CCDCHIP'' of
        None \<Rightarrow> None
      | Some chip \<Rightarrow>
          (case selected_map_path chip pamdir of None \<Rightarrow> None | Some path \<Rightarrow> fs path))"

subsection \<open>Example inputs\<close>

text \<open>
  The concrete scenario of the specification: a 2x2 image, a subarray one pixel in from
  the corner of a 4x4 map filled with 2.0, on chip 1, with the maps in the current
  directory (\<^verbatim>\<open>pamdir=''\<close>, as the notebook calls the function).
\<close>

definition scenario_image :: "binary64 ndarray" where
  "scenario_image = array2 [[B64 10, B64 20], [B64 30, B64 40]]"

definition scenario_header :: header where
  "scenario_header =
     [''LTV1'' \<mapsto> HInt (- 1), ''LTV2'' \<mapsto> HInt (- 1), ''NAXIS1'' \<mapsto> HInt 2,
      ''NAXIS2'' \<mapsto> HInt 2, ''CCDCHIP'' \<mapsto> HInt 1]"

definition scenario_pam :: "binary64 ndarray" where
  "scenario_pam = array2 (replicate 4 (replicate 4 (B64 2)))"

definition scenario_files :: "binary64 files" where
  "scenario_files = [''UVIS1wfc3_map.fits'' \<mapsto> scenario_pam]"





definition other_pam :: "binary64 ndarray" where
  "other_pam = array2 (replicate 4 (replicate 4 (B64 3)))"


text \<open>
  A subarray at the detector origin with a chip-1 map only one column wide, so that
  \<open>NAXIS1 = 2\<close> is larger than the map width; and the scenario with the subarray moved
  to column 4, past the last column of the 4x4 map.
\<close>

definition origin_header :: header where
  "origin_header =
     [''LTV1'' \<mapsto> HFloat 0, ''LTV2'' \<mapsto> HFloat 0, ''NAXIS1'' \<mapsto> HInt 2,
      ''NAXIS2'' \<mapsto> HInt 2, ''CCDCHIP'' \<mapsto> HInt 1]"

definition narrow_pam :: "binary64 ndarray" where
  "narrow_pam = array2 [[B64 2], [B64 3]]"

definition narrow_files :: "binary64 files" where
  "narrow_files = [''UVIS1wfc3_map.fits'' \<mapsto> narrow_pam]"

definition far_header :: header where
  "far_header =
     [''LTV1'' \<mapsto> HFloat (- 4), ''LTV2'' \<mapsto> HFloat (- 1), ''NAXIS1'' \<mapsto> HInt 2,
      ''NAXIS2'' \<mapsto> HInt 2, ''CCDCHIP'' \<mapsto> HInt 1]"

text \<open>Images whose column count is not the \<open>NAXIS1 = 2\<close> of the scenario header.\<close>

definition column_image :: "binary64 ndarray" where
  "column_image = array2 [[B64 10], [B64 30]]"

definition wide_image :: "binary64 ndarray" where
  "wide_image = array2 [[B64 10, B64 20, B64 30], [B64 40, B64 50, B64 60]]"

text \<open>A map of ones.\<close>

definition unit_pam :: "binary64 ndarray" where
  "unit_pam = array2 (replicate 4 (replicate 4 (B64 1)))"

definition unit_files :: "binary64 files" where
  "unit_files = [''UVIS1wfc3_map.fits'' \<mapsto> unit_pam]"

text \<open>
  A one-pixel image and map holding the doubles that Python writes \<^verbatim>\<open>0.2\<close> and
  \<^verbatim>\<open>0.3\<close>, and the double \<^verbatim>\<open>0.1\<close> as a scalar.
\<close>

definition double_0_1 :: binary64 where
  "double_0_1 = B64 (3602879701896397 / 2 ^ 55)"

definition double_0_2 :: binary64 where
  "double_0_2 = B64 (3602879701896397 / 2 ^ 54)"

definition double_0_3 :: binary64 where
  "double_0_3 = B64 (5404319552844595 / 2 ^ 54)"




text \<open>Two images in one store, corrected one after the other with the same files.\<close>

definition second_image :: "binary64 ndarray" where
  "second_image = array2 [[B64 1, B64 2], [B64 3, B64 4]]"

definition shared_world :: "binary64 world" where
  "shared_world = \<lparr>heap = [scenario_image, second_image], files = scenario_files\<rparr>"

definition first_call :: "(pyerror + nat) \<times> binary64 world" where
  "first_call = make_PAMcorr_image_UVIS_st 0 scenario_header '''' shared_world"

definition second_call :: "(pyerror + nat) \<times> binary64 world" where
  "second_call = make_PAMcorr_image_UVIS_st 1 scenario_header '''' (snd first_call)"

text \<open>
  The scenario header with further cards, and the scenario's map stored under another
  directory next to a different map in the current one.
\<close>

definition annotated_header :: header where
  "annotated_header =
     scenario_header(''EXPTIME'' \<mapsto> HFloat 30, ''FILTER'' \<mapsto> HStr ''F606W'')"

definition moved_files :: "binary64 files" where
  "moved_files =
     [''pam/UVIS1wfc3_map.fits'' \<mapsto> scenario_pam, ''UVIS1wfc3_map.fits'' \<mapsto> other_pam]"

section \<open>Auxiliary facts\<close>

subsection \<open>Slicing\<close>

lemma slice_indices_nonneg:
  "0 \<le> a \<Longrightarrow> 0 \<le> b \<Longrightarrow> slice_indices a b n = (min (nat a) n, min (nat b) n)"
  by (auto simp: slice_indices_def Let_def min_def)

lemma slice_len_inside:
  "0 \<le> a \<Longrightarrow> a \<le> b \<Longrightarrow> b \<le> int n \<Longrightarrow> slice_len a b n = nat (b - a)"
  by (auto simp: slice_len_def slice_indices_nonneg min_def)

lemma slice_len_nonneg:
  "0 \<le> a \<Longrightarrow> 0 \<le> b \<Longrightarrow> slice_len a b n = min (nat b) n - min (nat a) n"
  by (simp add: slice_len_def slice_indices_nonneg)

lemma py_slice_inside:
  "0 \<le> a \<Longrightarrow> a \<le> b \<Longrightarrow> b \<le> int (length xs) \<Longrightarrow>
   py_slice a b xs = take (nat (b - a)) (drop (nat a) xs)"
  by (auto simp: py_slice_def slice_indices_nonneg min_def nat_diff_distrib)

lemma length_py_slice_inside:
  "0 \<le> a \<Longrightarrow> a \<le> b \<Longrightarrow> b \<le> int (length xs) \<Longrightarrow> length (py_slice a b xs) = nat (b - a)"
  by (auto simp: py_slice_inside)

lemma length_py_slice_nonneg:
  "length (py_slice a b xs) = min (nat b) (length xs) - min (nat a) (length xs)"
  if "0 \<le> a" "0 \<le> b"
proof -
  have "min (min (nat b) n - min (nat a) n) (n - min (nat a) n) = min (nat b) n - min (nat a) n"
    for n :: nat
    by (simp add: min_def) arith
  then show ?thesis
    using that by (simp add: py_slice_def slice_indices_nonneg)
qed


lemma set_py_slice: "set (py_slice a b xs) \<subseteq> set xs"
  by (auto simp: py_slice_def split: prod.splits dest: in_set_takeD in_set_dropD)


lemma cells_getslice_subset: "set (cells (getslice A y0 y1 x0 x1)) \<subseteq> set (cells A)"
proof
  fix v
  assume "v \<in> set (cells (getslice A y0 y1 x0 x1))"
  then obtain row where row: "row \<in> set (py_slice y0 y1 (rows A))" "v \<in> set (py_slice x0 x1 row)"
    by (auto simp: cells_def getslice_def)
  have "row \<in> set (rows A)"
    using row(1) set_py_slice[of y0 y1 "rows A"] by blast
  moreover have "v \<in> set row"
    using row(2) set_py_slice[of x0 x1 row] by blast
  ultimately show "v \<in> set (cells A)"
    by (auto simp: cells_def)
qed

lemma wf_getslice_inside:
  assumes "wf_ndarray A" "0 \<le> x0" "x0 \<le> x1" "x1 \<le> int (ncols A)"
  shows "wf_ndarray (getslice A y0 y1 x0 x1)"
  using assms set_py_slice[of y0 y1 "rows A"]
  by (auto simp: wf_ndarray_def getslice_def list_all_iff slice_len_inside length_py_slice_inside)

lemma shape_getslice_inside:
  assumes "0 \<le> x0" "x0 \<le> x1" "x1 \<le> int (ncols A)" "0 \<le> y0" "y0 \<le> y1" "y1 \<le> int (nrows A)"
  shows "shape (getslice A y0 y1 x0 x1) = (nat (y1 - y0), nat (x1 - x0))"
  using assms
  by (auto simp: shape_def nrows_def getslice_def slice_len_inside length_py_slice_inside)

lemma shape_getslice_nonneg:
  assumes "0 \<le> x0" "0 \<le> x1" "0 \<le> y0" "0 \<le> y1"
  shows "shape (getslice A y0 y1 x0 x1)
       = (min (nat y1) (nrows A) - min (nat y0) (nrows A),
          min (nat x1) (ncols A) - min (nat x0) (ncols A))"
  using assms
  by (simp add: shape_def nrows_def getslice_def slice_len_nonneg length_py_slice_nonneg)

subsection \<open>Broadcasting\<close>

lemma stretch_same: "length xs = n \<Longrightarrow> stretch n xs = xs"
  by (cases xs rule: list.exhaust; cases "tl xs") (auto simp: stretch_def split: list.splits)

lemma stretch_map: "stretch n (map f xs) = map f (stretch n xs)"
  by (auto simp: stretch_def split: list.splits)

lemma length_stretch: "length xs = n \<or> length xs = 1 \<Longrightarrow> length (stretch n xs) = n"
  by (cases xs rule: list.exhaust; cases "tl xs") (auto simp: stretch_def split: list.splits)

lemma broadcast_dim_same: "broadcast_dim n n = Some n"
  by (simp add: broadcast_dim_def)

lemma np_multiply_same_shape:
  assumes "wf_ndarray A" "wf_ndarray B" "shape A = shape B"
  shows "np_multiply A B = Inr \<lparr>ncols = ncols A, rows = map2 (map2 (*)) (rows A) (rows B)\<rparr>"
proof -
  have n: "nrows A = nrows B" and c: "ncols A = ncols B"
    using assms(3) by (simp_all add: shape_def)
  have s: "stretch (ncols A) ra = ra \<and> stretch (ncols A) rb = rb"
    if "(ra, rb) \<in> set (zip (rows A) (rows B))" for ra rb
  proof -
    have "ra \<in> set (rows A)" "rb \<in> set (rows B)"
      using that by (auto dest: set_zip_leftD set_zip_rightD)
    then show ?thesis
      using assms(1,2) c by (simp add: wf_ndarray_def list_all_iff stretch_same)
  qed
  have "map2 (\<lambda>ra rb. map2 (*) (stretch (ncols A) ra) (stretch (ncols A) rb)) (rows A) (rows B)
        = map2 (map2 (*)) (rows A) (rows B)"
    by (rule map_cong) (auto simp: s)
  then show ?thesis
    using n c by (simp add: np_multiply_def broadcast_dim_same stretch_same nrows_def)
qed

lemma wf_map2_rows:
  assumes "wf_ndarray A" "wf_ndarray B" "ncols A = ncols B"
  shows "wf_ndarray \<lparr>ncols = ncols A, rows = map2 (map2 f) (rows A) (rows B)\<rparr>"
proof -
  have "length (map2 f ra rb) = ncols A"
    if "(ra, rb) \<in> set (zip (rows A) (rows B))" for ra rb
  proof -
    have "ra \<in> set (rows A)" "rb \<in> set (rows B)"
      using that by (auto dest: set_zip_leftD set_zip_rightD)
    then show ?thesis
      using assms by (simp add: wf_ndarray_def list_all_iff)
  qed
  then show ?thesis
    by (auto simp: wf_ndarray_def list_all_iff)
qed

lemma map2_times_one:
  fixes xs :: "('a::{times,one}) list"
  assumes "length xs = length ys" "\<forall>x\<in>set xs. x * 1 = x" "\<forall>y\<in>set ys. y = 1"
  shows "map2 (*) xs ys = xs"
  using assms by (induction xs ys rule: list_induct2) auto

lemma map2_rows_times_one:
  fixes xss :: "('a::{times,one}) list list"
  assumes "length xss = length yss"
    and "\<forall>(xs, ys)\<in>set (zip xss yss). length xs = length ys"
    and "\<forall>x\<in>set (concat xss). x * 1 = x" "\<forall>y\<in>set (concat yss). y = 1"
  shows "map2 (map2 (*)) xss yss = xss"
  using assms by (induction xss yss rule: list_induct2) (auto simp: map2_times_one)

lemma set_stretch: "set (stretch n xs) \<subseteq> set xs"
  by (auto simp: stretch_def split: list.splits)

lemma map2_scalar_assoc:
  fixes k :: "'a::times"
  assumes "\<forall>a\<in>set xs. \<forall>b\<in>set ys. (k * a) * b = k * (a * b)"
  shows "map2 (*) (map ((*) k) xs) ys = map ((*) k) (map2 (*) xs ys)"
proof -
  have "(k * a) * b = k * (a * b)" if "(a, b) \<in> set (zip xs ys)" for a b
    using that assms by (auto dest: set_zip_leftD set_zip_rightD)
  then show ?thesis
    by (auto simp: zip_map1)
qed

lemma np_multiply_scalar_assoc:
  fixes k :: "'a::times"
  assumes "\<forall>a\<in>set (cells A). \<forall>b\<in>set (cells B). (k * a) * b = k * (a * b)"
  shows "np_multiply (scalar_multiply k A) B = map_sum id (scalar_multiply k) (np_multiply A B)"
proof -
  have row: "map2 (*) (stretch w (map ((*) k) ra)) (stretch w rb)
               = map ((*) k) (map2 (*) (stretch w ra) (stretch w rb))"
    if "(ra, rb) \<in> set (zip (stretch h (rows A)) (stretch h (rows B)))" for ra rb h w
  proof -
    have "ra \<in> set (rows A)" "rb \<in> set (rows B)"
      using that set_stretch by (fastforce dest: set_zip_leftD set_zip_rightD)+
    then have "\<forall>a\<in>set (stretch w ra). \<forall>b\<in>set (stretch w rb). (k * a) * b = k * (a * b)"
      using assms set_stretch[of w ra] set_stretch[of w rb] by (fastforce simp: cells_def)
    then show ?thesis
      unfolding stretch_map by (rule map2_scalar_assoc)
  qed
  have "map2 (\<lambda>ra rb. map2 (*) (stretch w ra) (stretch w rb))
          (stretch h (map (map ((*) k)) (rows A))) (stretch h (rows B))
        = map (map ((*) k))
            (map2 (\<lambda>ra rb. map2 (*) (stretch w ra) (stretch w rb))
               (stretch h (rows A)) (stretch h (rows B)))" for h w
    using row[of _ _ h w] by (auto simp: stretch_map zip_map1)
  then show ?thesis
    by (auto simp: np_multiply_def scalar_multiply_def nrows_def split: option.splits)
qed





lemma np_multiply_ValueError_iff:
  "np_multiply A B = Inl e \<longleftrightarrow>
     e = ValueError \<and>
     ((nrows A \<noteq> nrows B \<and> nrows A \<noteq> 1 \<and> nrows B \<noteq> 1)
      \<or> (ncols A \<noteq> ncols B \<and> ncols A \<noteq> 1 \<and> ncols B \<noteq> 1))"
  by (auto simp: np_multiply_def broadcast_dim_def split: option.splits if_splits)

lemma np_multiply_shape:
  assumes "np_multiply A B = Inr R"
  shows "shape R = (if nrows A = 1 then nrows B else nrows A,
                    if ncols A = 1 then ncols B else ncols A)"
proof -
  obtain h w where h: "broadcast_dim (nrows A) (nrows B) = Some h"
    and w: "broadcast_dim (ncols A) (ncols B) = Some w"
    and R: "R = \<lparr>ncols = w,
                 rows = map2 (\<lambda>ra rb. map2 (*) (stretch w ra) (stretch w rb))
                          (stretch h (rows A)) (stretch h (rows B))\<rparr>"
    using assms by (auto simp: np_multiply_def split: option.splits)
  have la: "length (stretch h (rows A)) = h" and lb: "length (stretch h (rows B)) = h"
    using h by (auto simp: broadcast_dim_def nrows_def split: if_splits intro!: length_stretch)
  have "nrows R = h"
    by (simp add: R nrows_def la lb)
  moreover have "ncols R = w"
    by (simp add: R)
  ultimately show ?thesis
    using h w by (auto simp: shape_def broadcast_dim_def split: if_splits)
qed

lemma np_multiply_cases:
  "(if (nrows A \<noteq> nrows B \<and> nrows A \<noteq> 1 \<and> nrows B \<noteq> 1)
        \<or> (ncols A \<noteq> ncols B \<and> ncols A \<noteq> 1 \<and> ncols B \<noteq> 1)
    then np_multiply A B = Inl ValueError
    else \<exists>R. np_multiply A B = Inr R
            \<and> shape R = (if nrows A = 1 then nrows B else nrows A,
                         if ncols A = 1 then ncols B else ncols A))"
proof (cases "np_multiply A B")
  case (Inl e)
  then show ?thesis
    by (simp add: np_multiply_ValueError_iff)
next
  case (Inr R)
  then have "\<not> ((nrows A \<noteq> nrows B \<and> nrows A \<noteq> 1 \<and> nrows B \<noteq> 1)
        \<or> (ncols A \<noteq> ncols B \<and> ncols A \<noteq> 1 \<and> ncols B \<noteq> 1))"
    using np_multiply_ValueError_iff[of A B ValueError] by auto
  then show ?thesis
    using Inr np_multiply_shape[OF Inr] by simp
qed

subsection \<open>Header cards\<close>





lemma subarray_corners_cong:
  assumes "h1 ''LTV1'' = h2 ''LTV1''" "h1 ''LTV2'' = h2 ''LTV2''"
    and "h1 ''NAXIS1'' = h2 ''NAXIS1''" "h1 ''NAXIS2'' = h2 ''NAXIS2''"
  shows "subarray_corners h1 = subarray_corners h2"
  unfolding subarray_corners_def getitem_def assms by (rule refl)


subsection \<open>The correction on values\<close>

lemma make_PAMcorr_selected:
  assumes "subarray_corners scihdr = Inr (x0, y0, x1, y1)"
    and "scihdr ''CCDCHIP'' = Some chip"
    and "selected_map_path chip pamdir = Some path"
    and "fs path = Some pam"
  shows "make_PAMcorr_image_UVIS data scihdr pamdir fs = np_multiply data (getslice pam y0 y1 x0 x1)"
  using assms
  by (auto simp: make_PAMcorr_image_UVIS_def getitem_def selected_map_path_def pam_product_def
      fits_getdata_def split: if_splits)

lemma make_PAMcorr_scalar_assoc:
  fixes k :: "'a::times"
  assumes "\<forall>pam x0 y0 x1 y1.
             selected_map scihdr pamdir fs = Some pam
             \<and> subarray_corners scihdr = Inr (x0, y0, x1, y1) \<longrightarrow>
             (\<forall>a\<in>set (cells data). \<forall>b\<in>set (cells (getslice pam y0 y1 x0 x1)).
                (k * a) * b = k * (a * b))"
  shows "make_PAMcorr_image_UVIS (scalar_multiply k data) scihdr pamdir fs
       = map_sum id (scalar_multiply k) (make_PAMcorr_image_UVIS data scihdr pamdir fs)"
proof (cases "subarray_corners scihdr")
  case (Inl e)
  then show ?thesis
    by (simp add: make_PAMcorr_image_UVIS_def)
next
  case (Inr c)
  obtain x0 y0 x1 y1 where c: "c = (x0, y0, x1, y1)"
    by (cases c)
  have prod: "pam_product (scalar_multiply k data) fs path c
                = map_sum id (scalar_multiply k) (pam_product data fs path c)"
    if "selected_map scihdr pamdir fs = fs path" for path
  proof (cases "fs path")
    case None
    then show ?thesis
      by (simp add: pam_product_def fits_getdata_def c)
  next
    case (Some pam)
    then have "\<forall>a\<in>set (cells data). \<forall>b\<in>set (cells (getslice pam y0 y1 x0 x1)).
                (k * a) * b = k * (a * b)"
      using assms that Inr c by simp
    then show ?thesis
      using Some by (simp add: pam_product_def fits_getdata_def c np_multiply_scalar_assoc)
  qed
  show ?thesis
  proof (cases "scihdr ''CCDCHIP''")
    case None
    then show ?thesis
      by (simp add: make_PAMcorr_image_UVIS_def Inr getitem_def)
  next
    case (Some chip)
    then show ?thesis
      using prod[of "pamdir @ ''UVIS1wfc3_map.fits''"] prod[of "pamdir @ ''UVIS2wfc3_map.fits''"]
      by (simp add: make_PAMcorr_image_UVIS_def Inr getitem_def selected_map_def
          selected_map_path_def)
  qed
qed

text \<open>In exact arithmetic the product is associative and the condition always holds.\<close>

lemma make_PAMcorr_scalar_exact:
  fixes k :: "'a::semigroup_mult"
  shows "make_PAMcorr_image_UVIS (scalar_multiply k data) scihdr pamdir fs
       = map_sum id (scalar_multiply k) (make_PAMcorr_image_UVIS data scihdr pamdir fs)"
  by (rule make_PAMcorr_scalar_assoc) (simp add: mult.assoc)



text \<open>
  The product of the image with the region of its own shape cut from the map at a
  non-negative origin: every pixel of the result is the image pixel times the map pixel
  at the same place of the full detector, \<open>R[r,c] = data[r,c] * pam[y0+r, x0+c]\<close>.
\<close>

lemma region_product:
  assumes "wf_ndarray data" "wf_ndarray pam" "0 \<le> x0" "0 \<le> y0"
    and "x0 + int (ncols data) \<le> int (ncols pam)" "y0 + int (nrows data) \<le> int (nrows pam)"
    and "region = getslice pam y0 (y0 + int (nrows data)) x0 (x0 + int (ncols data))"
  shows "np_multiply data region
           = Inr \<lparr>ncols = ncols data, rows = map2 (map2 (*)) (rows data) (rows region)\<rparr>"
    and "wf_ndarray region" and "shape region = shape data"
proof -
  let ?x1 = "x0 + int (ncols data)" and ?y1 = "y0 + int (nrows data)"
  show wf: "wf_ndarray region"
    unfolding assms(7) using assms(2,3,5) by (intro wf_getslice_inside) simp_all
  show sh: "shape region = shape data"
    unfolding assms(7)
    using shape_getslice_inside[of x0 ?x1 pam y0 ?y1] assms(3-6)
    by (simp add: shape_def)
  show "np_multiply data region
           = Inr \<lparr>ncols = ncols data, rows = map2 (map2 (*)) (rows data) (rows region)\<rparr>"
    using assms(1) wf sh by (intro np_multiply_same_shape) simp_all
qed





lemma make_PAMcorr_valid:
  assumes "wf_ndarray data" "wf_ndarray pam"
    and "scihdr ''LTV1'' = Some ltv1" "int_abs ltv1 = Inr x0"
    and "scihdr ''LTV2'' = Some ltv2" "int_abs ltv2 = Inr y0"
    and "scihdr ''NAXIS1'' = Some (HInt (int (ncols data)))"
    and "scihdr ''NAXIS2'' = Some (HInt (int (nrows data)))"
    and "scihdr ''CCDCHIP'' = Some chip" "selected_map_path chip pamdir = Some path"
    and "fs path = Some pam"
    and "x0 + int (ncols data) \<le> int (ncols pam)" "y0 + int (nrows data) \<le> int (nrows pam)"
    and "0 \<le> x0" "0 \<le> y0"
    and "region = getslice pam y0 (y0 + int (nrows data)) x0 (x0 + int (ncols data))"
  shows "make_PAMcorr_image_UVIS data scihdr pamdir fs
           = Inr \<lparr>ncols = ncols data, rows = map2 (map2 (*)) (rows data) (rows region)\<rparr>"
    and "wf_ndarray region" and "shape region = shape data"
proof -
  let ?x1 = "x0 + int (ncols data)" and ?y1 = "y0 + int (nrows data)"
  note v = region_product[OF assms(1,2,14,15,12,13,16)]
  have "subarray_corners scihdr = Inr (x0, y0, ?x1, ?y1)"
    using assms(3-8) by (simp add: subarray_corners_def getitem_def)
  then have run: "make_PAMcorr_image_UVIS data scihdr pamdir fs = np_multiply data region"
    unfolding assms(16) using assms(9-11) by (rule make_PAMcorr_selected)
  show "wf_ndarray region" "shape region = shape data"
    by (rule v(2), rule v(3))
  show "make_PAMcorr_image_UVIS data scihdr pamdir fs
           = Inr \<lparr>ncols = ncols data, rows = map2 (map2 (*)) (rows data) (rows region)\<rparr>"
    unfolding run by (rule v(1))
qed

subsection \<open>The correction on the store\<close>

lemma pam_product_st_frame:
  assumes "data < length (heap w)" "pam_product_st data path c w = (res, w')"
  shows "prefix (heap w) (heap w') \<and> files w' = files w
       \<and> (case res of
             Inl e \<Rightarrow> pam_product (heap w ! data) (files w) path c = Inl e
           | Inr r \<Rightarrow> length (heap w) \<le> r \<and> r < length (heap w')
                      \<and> pam_product (heap w ! data) (files w) path c = Inr (heap w' ! r))"
  using assms
  by (auto simp: pam_product_st_def pam_product_def alloc_def fits_getdata_def nth_append
      split: prod.splits option.splits sum.splits)

lemma make_PAMcorr_st_frame:
  assumes "data < length (heap w)" "make_PAMcorr_image_UVIS_st data scihdr pamdir w = (res, w')"
  shows "prefix (heap w) (heap w') \<and> files w' = files w
       \<and> (case res of
             Inl e \<Rightarrow> make_PAMcorr_image_UVIS (heap w ! data) scihdr pamdir (files w) = Inl e
           | Inr r \<Rightarrow> length (heap w) \<le> r \<and> r < length (heap w')
                      \<and> make_PAMcorr_image_UVIS (heap w ! data) scihdr pamdir (files w)
                          = Inr (heap w' ! r))"
proof -
  obtain d w1 where cp: "np_copy data w = (d, w1)"
    by (cases "np_copy data w")
  then have w1: "heap w1 = heap w @ [heap w ! data]" "files w1 = files w" "d = length (heap w)"
    by (auto simp: np_copy_def alloc_def)
  have d: "d < length (heap w1)" "heap w1 ! d = heap w ! data"
    by (simp_all add: w1)
  have p: "prefix (heap w) (heap w1)"
    by (simp add: w1)
  have step: "prefix (heap w) (heap w') \<and> files w' = files w
       \<and> (case res of
             Inl e \<Rightarrow> pam_product (heap w ! data) (files w) path c = Inl e
           | Inr r \<Rightarrow> length (heap w) \<le> r \<and> r < length (heap w')
                      \<and> pam_product (heap w ! data) (files w) path c = Inr (heap w' ! r))"
    if "pam_product_st d path c w1 = (res, w')" for path c
    using pam_product_st_frame[OF d(1) that] d(2) w1(2)
    by (auto split: sum.splits simp: w1(1) dest: append_prefixD)
  show ?thesis
    using assms(2) p w1(2)
    by (auto simp: make_PAMcorr_image_UVIS_st_def make_PAMcorr_image_UVIS_def cp
        split: sum.splits if_splits dest!: step)
qed

subsection \<open>Evaluations of the examples\<close>

lemma doubles_nearest:
  "double_0_1 = B64 (fl64 (1 / 10))" "double_0_2 = B64 (fl64 (2 / 10))"
  "double_0_3 = B64 (fl64 (3 / 10))"
  "is_double double_0_1" "is_double double_0_2" "is_double double_0_3"
  by code_simp+





lemma calls_evaluated:
  "fst first_call = Inr 4" "fst second_call = Inr 7"
  "heap (snd second_call) ! 7 = array2 [[B64 2, B64 4], [B64 6, B64 8]]"
  "heap (snd second_call) ! 4 = array2 [[B64 20, B64 40], [B64 60, B64 80]]"
  by code_simp+

section \<open>The concrete scenario\<close>

text \<open>
  C1. For the image \<open>[[10,20],[30,40]]\<close>, the header with \<open>LTV1 = -1\<close>, \<open>LTV2 = -1\<close>,
  \<open>NAXIS1 = 2\<close>, \<open>NAXIS2 = 2\<close>, \<open>CCDCHIP = 1\<close> and a 4x4 chip-1 map filled with 2.0,
  the corners are \<open>x0 = 1\<close>, \<open>y0 = 1\<close>, \<open>x1 = 3\<close>, \<open>y1 = 3\<close>, the selected region is the
  2x2 array of 2.0, and the function returns exactly \<open>[[20,40],[60,80]]\<close>.
\<close>

theorem C1_concrete_scenario:
  "subarray_corners scenario_header = Inr (1, 1, 3, 3)
   \<and> getslice scenario_pam 1 3 1 3 = array2 [[B64 2, B64 2], [B64 2, B64 2]]
   \<and> make_PAMcorr_image_UVIS scenario_image scenario_header '''' scenario_files
       = Inr (array2 [[B64 20, B64 40], [B64 60, B64 80]])"
  by code_simp

section \<open>Offsets, extent and region\<close>




section \<open>Chip dispatch\<close>



section \<open>A sub-rectangle outside the map\<close>

text \<open>
  C4, as the code behaves. When the sub-rectangle of an otherwise valid input (a
  non-empty image, axis cards equal to its shape, a supported chip, an origin that is not
  negative) exceeds the bounds of the selected map, the slice is clipped to the map: the region has \<open>h\<close> rows and \<open>w\<close>
  columns, fewer than the image on an exceeded axis. The product then fails with
  NumPy's \<open>ValueError\<close> when on some axis the clipped extent differs from the image's and
  neither is 1; otherwise the clipped region is broadcast and an array is returned.
\<close>

theorem C4_out_of_bounds_is_clipped:
  assumes "scihdr ''LTV1'' = Some ltv1" "int_abs ltv1 = Inr x0"
    and "scihdr ''LTV2'' = Some ltv2" "int_abs ltv2 = Inr y0"
    and "scihdr ''NAXIS1'' = Some (HInt (int (ncols data)))"
    and "scihdr ''NAXIS2'' = Some (HInt (int (nrows data)))"
    and "scihdr ''CCDCHIP'' = Some chip" "selected_map_path chip pamdir = Some path"
    and "fs path = Some pam"
    and "0 < nrows data" "0 < ncols data"
    and "int (ncols pam) < x0 + int (ncols data) \<or> int (nrows pam) < y0 + int (nrows data)"
    and "h = min (nat y0 + nrows data) (nrows pam) - min (nat y0) (nrows pam)"
    and "w = min (nat x0 + ncols data) (ncols pam) - min (nat x0) (ncols pam)"
    and "0 \<le> x0" "0 \<le> y0"
  shows "shape (getslice pam y0 (y0 + int (nrows data)) x0 (x0 + int (ncols data))) = (h, w)
       \<and> (h < nrows data \<or> w < ncols data)
       \<and> (if (nrows data \<noteq> h \<and> nrows data \<noteq> 1 \<and> h \<noteq> 1)
              \<or> (ncols data \<noteq> w \<and> ncols data \<noteq> 1 \<and> w \<noteq> 1)
           then make_PAMcorr_image_UVIS data scihdr pamdir fs = Inl ValueError
           else \<exists>R. make_PAMcorr_image_UVIS data scihdr pamdir fs = Inr R
                   \<and> shape R = (if nrows data = 1 then h else nrows data,
                                if ncols data = 1 then w else ncols data))"
proof -
  let ?x1 = "x0 + int (ncols data)" and ?y1 = "y0 + int (nrows data)"
  let ?region = "getslice pam y0 ?y1 x0 ?x1"
  note x0 = assms(15) and y0 = assms(16)
  have "subarray_corners scihdr = Inr (x0, y0, ?x1, ?y1)"
    using assms(1-6) by (simp add: subarray_corners_def getitem_def)
  then have run: "make_PAMcorr_image_UVIS data scihdr pamdir fs = np_multiply data ?region"
    using assms(7-9) by (rule make_PAMcorr_selected)
  have sh: "shape ?region = (h, w)"
    using x0 y0 by (simp add: shape_getslice_nonneg assms(13,14) nat_add_distrib)
  then have n: "nrows ?region = h" "ncols ?region = w"
    by (simp_all add: shape_def)
  have small: "h < nrows data \<or> w < ncols data"
    using assms(10-12) x0 y0 unfolding assms(13,14) by (auto simp: min_def)
  show ?thesis
    using np_multiply_cases[of data ?region] sh small unfolding run n by simp
qed

theorem C4_out_of_bounds_is_clipped_witness:
  "(shape (getslice narrow_pam 0 2 0 2) = (2, 1)
    \<and> (\<exists>R. make_PAMcorr_image_UVIS scenario_image origin_header '''' narrow_files = Inr R
           \<and> shape R = (2, 2)))
   \<and> (shape (getslice scenario_pam 1 3 4 6) = (2, 0)
    \<and> make_PAMcorr_image_UVIS scenario_image far_header '''' scenario_files = Inl ValueError)"
proof -
  have s: "nrows scenario_image = 2" "ncols scenario_image = 2"
    "nrows narrow_pam = 2" "ncols narrow_pam = 1" "nrows scenario_pam = 4" "ncols scenario_pam = 4"
    by code_simp+
  have "shape (getslice narrow_pam 0 (0 + int (nrows scenario_image)) 0 (0 + int (ncols scenario_image)))
          = (2, 1)
       \<and> (2 < nrows scenario_image \<or> 1 < ncols scenario_image)
       \<and> (if (nrows scenario_image \<noteq> 2 \<and> nrows scenario_image \<noteq> 1 \<and> (2::nat) \<noteq> 1)
              \<or> (ncols scenario_image \<noteq> 1 \<and> ncols scenario_image \<noteq> 1 \<and> (1::nat) \<noteq> 1)
           then make_PAMcorr_image_UVIS scenario_image origin_header '''' narrow_files = Inl ValueError
           else \<exists>R. make_PAMcorr_image_UVIS scenario_image origin_header '''' narrow_files = Inr R
                   \<and> shape R = (if nrows scenario_image = 1 then 2 else nrows scenario_image,
                                if ncols scenario_image = 1 then 1 else ncols scenario_image))"
    by (rule C4_out_of_bounds_is_clipped[where ?ltv1.0 = "HFloat 0" and ?ltv2.0 = "HFloat 0"
          and chip = "HInt 1" and path = "''UVIS1wfc3_map.fits''"])
      (simp_all add: origin_header_def narrow_files_def selected_map_path_def s py_int_def)
  then have 1: "shape (getslice narrow_pam 0 2 0 2) = (2, 1)
    \<and> (\<exists>R. make_PAMcorr_image_UVIS scenario_image origin_header '''' narrow_files = Inr R
           \<and> shape R = (2, 2))"
    by (simp add: s)
  have "shape (getslice scenario_pam 1 (1 + int (nrows scenario_image)) 4 (4 + int (ncols scenario_image)))
          = (2, 0)
       \<and> (2 < nrows scenario_image \<or> 0 < ncols scenario_image)
       \<and> (if (nrows scenario_image \<noteq> 2 \<and> nrows scenario_image \<noteq> 1 \<and> (2::nat) \<noteq> 1)
              \<or> (ncols scenario_image \<noteq> 0 \<and> ncols scenario_image \<noteq> 1 \<and> (0::nat) \<noteq> 1)
           then make_PAMcorr_image_UVIS scenario_image far_header '''' scenario_files = Inl ValueError
           else \<exists>R. make_PAMcorr_image_UVIS scenario_image far_header '''' scenario_files = Inr R
                   \<and> shape R = (if nrows scenario_image = 1 then 2 else nrows scenario_image,
                                if ncols scenario_image = 1 then 0 else ncols scenario_image))"
    by (rule C4_out_of_bounds_is_clipped[where ?ltv1.0 = "HFloat (- 4)" and ?ltv2.0 = "HFloat (- 1)"
          and chip = "HInt 1" and path = "''UVIS1wfc3_map.fits''"])
      (simp_all add: far_header_def scenario_files_def selected_map_path_def s py_int_def)
  then have 2: "shape (getslice scenario_pam 1 3 4 6) = (2, 0)
    \<and> make_PAMcorr_image_UVIS scenario_image far_header '''' scenario_files = Inl ValueError"
    by (simp add: s)
  from 1 2 show ?thesis ..
qed

text \<open>
  C4, as stated, fails: with \<open>LTV1 = 0\<close>, \<open>NAXIS1 = 2\<close> and a map one column wide, the
  corner \<open>x1 = 2\<close> exceeds the map width 1, and the function returns an array computed
  from the clipped region instead of failing.
\<close>

theorem C4_counterexample:
  "subarray_corners origin_header = Inr (0, 0, 2, 2)
   \<and> shape narrow_pam = (2, 1)
   \<and> make_PAMcorr_image_UVIS scenario_image origin_header '''' narrow_files
       = Inr (array2 [[B64 20, B64 40], [B64 90, B64 120]])"
  by code_simp

section \<open>Axis cards that disagree with the image\<close>

text \<open>
  C5, as the code behaves. When the declared axis lengths \<open>n1\<close>, \<open>n2\<close> disagree with the
  image's column or row count (and the declared sub-rectangle lies within the map, from
  an origin that is not negative), the
  function fails with NumPy's \<open>ValueError\<close> when on some axis the declared length
  differs from the image's and neither is 1; otherwise it broadcasts and returns an
  array.
\<close>

theorem C5_shape_mismatch_broadcasts:
  assumes "scihdr ''LTV1'' = Some ltv1" "int_abs ltv1 = Inr x0"
    and "scihdr ''LTV2'' = Some ltv2" "int_abs ltv2 = Inr y0"
    and "scihdr ''NAXIS1'' = Some (HInt (int n1))"
    and "scihdr ''NAXIS2'' = Some (HInt (int n2))"
    and "scihdr ''CCDCHIP'' = Some chip" "selected_map_path chip pamdir = Some path"
    and "fs path = Some pam"
    and "x0 + int n1 \<le> int (ncols pam)" "y0 + int n2 \<le> int (nrows pam)"
    and "n1 \<noteq> ncols data \<or> n2 \<noteq> nrows data"
    and "0 \<le> x0" "0 \<le> y0"
  shows "if (nrows data \<noteq> n2 \<and> nrows data \<noteq> 1 \<and> n2 \<noteq> 1)
            \<or> (ncols data \<noteq> n1 \<and> ncols data \<noteq> 1 \<and> n1 \<noteq> 1)
         then make_PAMcorr_image_UVIS data scihdr pamdir fs = Inl ValueError
         else \<exists>R. make_PAMcorr_image_UVIS data scihdr pamdir fs = Inr R
                 \<and> shape R = (if nrows data = 1 then n2 else nrows data,
                              if ncols data = 1 then n1 else ncols data)"
proof -
  let ?x1 = "x0 + int n1" and ?y1 = "y0 + int n2"
  let ?region = "getslice pam y0 ?y1 x0 ?x1"
  note x0 = assms(13) and y0 = assms(14)
  have "subarray_corners scihdr = Inr (x0, y0, ?x1, ?y1)"
    using assms(1-6) by (simp add: subarray_corners_def getitem_def)
  then have run: "make_PAMcorr_image_UVIS data scihdr pamdir fs = np_multiply data ?region"
    using assms(7-9) by (rule make_PAMcorr_selected)
  have "shape ?region = (nat (?y1 - y0), nat (?x1 - x0))"
    using x0 y0 assms(10,11) by (intro shape_getslice_inside) simp_all
  then have n: "nrows ?region = n2" "ncols ?region = n1"
    by (simp_all add: shape_def)
  show ?thesis
    using np_multiply_cases[of data ?region] unfolding run n by simp
qed

theorem C5_shape_mismatch_broadcasts_witness:
  "(\<exists>R. make_PAMcorr_image_UVIS column_image scenario_header '''' scenario_files = Inr R
        \<and> shape R = (2, 2))
   \<and> make_PAMcorr_image_UVIS wide_image scenario_header '''' scenario_files = Inl ValueError"
proof -
  have s: "nrows column_image = 2" "ncols column_image = 1"
    "nrows wide_image = 2" "ncols wide_image = 3" "nrows scenario_pam = 4" "ncols scenario_pam = 4"
    by code_simp+
  have "if (nrows column_image \<noteq> 2 \<and> nrows column_image \<noteq> 1 \<and> (2::nat) \<noteq> 1)
            \<or> (ncols column_image \<noteq> 2 \<and> ncols column_image \<noteq> 1 \<and> (2::nat) \<noteq> 1)
         then make_PAMcorr_image_UVIS column_image scenario_header '''' scenario_files = Inl ValueError
         else \<exists>R. make_PAMcorr_image_UVIS column_image scenario_header '''' scenario_files = Inr R
                 \<and> shape R = (if nrows column_image = 1 then 2 else nrows column_image,
                              if ncols column_image = 1 then 2 else ncols column_image)"
    by (rule C5_shape_mismatch_broadcasts[where ?ltv1.0 = "HInt (- 1)" and ?ltv2.0 = "HInt (- 1)"
          and ?x0.0 = 1 and ?y0.0 = 1 and pam = scenario_pam
          and chip = "HInt 1" and path = "''UVIS1wfc3_map.fits''"])
      (simp_all add: scenario_header_def scenario_files_def selected_map_path_def np_abs_int_def s)
  then have 1: "\<exists>R. make_PAMcorr_image_UVIS column_image scenario_header '''' scenario_files = Inr R
        \<and> shape R = (2, 2)"
    by (simp add: s)
  have "if (nrows wide_image \<noteq> 2 \<and> nrows wide_image \<noteq> 1 \<and> (2::nat) \<noteq> 1)
            \<or> (ncols wide_image \<noteq> 2 \<and> ncols wide_image \<noteq> 1 \<and> (2::nat) \<noteq> 1)
         then make_PAMcorr_image_UVIS wide_image scenario_header '''' scenario_files = Inl ValueError
         else \<exists>R. make_PAMcorr_image_UVIS wide_image scenario_header '''' scenario_files = Inr R
                 \<and> shape R = (if nrows wide_image = 1 then 2 else nrows wide_image,
                              if ncols wide_image = 1 then 2 else ncols wide_image)"
    by (rule C5_shape_mismatch_broadcasts[where ?ltv1.0 = "HInt (- 1)" and ?ltv2.0 = "HInt (- 1)"
          and ?x0.0 = 1 and ?y0.0 = 1 and pam = scenario_pam
          and chip = "HInt 1" and path = "''UVIS1wfc3_map.fits''"])
      (simp_all add: scenario_header_def scenario_files_def selected_map_path_def np_abs_int_def s)
  then have 2: "make_PAMcorr_image_UVIS wide_image scenario_header '''' scenario_files = Inl ValueError"
    by (simp add: s)
  from 1 2 show ?thesis ..
qed

text \<open>
  C5, as stated, fails: for an image with one column and \<open>NAXIS1 = 2\<close> the function
  raises nothing and returns a 2x2 array.
\<close>

theorem C5_counterexample:
  "shape column_image = (2, 1)
   \<and> scenario_header ''NAXIS1'' = Some (HInt 2)
   \<and> make_PAMcorr_image_UVIS column_image scenario_header '''' scenario_files
       = Inr (array2 [[B64 20, B64 20], [B64 60, B64 60]])"
  by code_simp

section \<open>Shape of the result\<close>

text \<open>
  C6. For every valid input (well-formed arrays, axis cards equal to the image's column
  and row counts, a supported chip whose map file is there, and a sub-rectangle within
  the map: its origin is not negative and its far corner is within the map's last row and
  column), the function returns an array, and its shape is the shape of the image. The
  origin \<open>int(np.abs(LTV))\<close> is negative for one card only, the integer \<open>-2\<^sup>6\<^sup>3\<close>.
\<close>

theorem C6_shape_preserved:
  assumes "wf_ndarray data" "wf_ndarray pam"
    and "scihdr ''LTV1'' = Some ltv1" "int_abs ltv1 = Inr x0"
    and "scihdr ''LTV2'' = Some ltv2" "int_abs ltv2 = Inr y0"
    and "scihdr ''NAXIS1'' = Some (HInt (int (ncols data)))"
    and "scihdr ''NAXIS2'' = Some (HInt (int (nrows data)))"
    and "scihdr ''CCDCHIP'' = Some chip" "selected_map_path chip pamdir = Some path"
    and "fs path = Some pam"
    and "x0 + int (ncols data) \<le> int (ncols pam)" "y0 + int (nrows data) \<le> int (nrows pam)"
    and "0 \<le> x0" "0 \<le> y0"
  shows "\<exists>R. make_PAMcorr_image_UVIS data scihdr pamdir fs = Inr R
            \<and> shape R = shape data \<and> wf_ndarray R"
proof -
  define region where "region = getslice pam y0 (y0 + int (nrows data)) x0 (x0 + int (ncols data))"
  note v = make_PAMcorr_valid[where fs = fs and path = path, OF assms region_def]
  let ?R = "\<lparr>ncols = ncols data, rows = map2 (map2 (*)) (rows data) (rows region)\<rparr>"
  have "shape ?R = shape data"
    using v(3) by (simp add: shape_def nrows_def)
  moreover have "wf_ndarray ?R"
    using assms(1) v(2,3) by (intro wf_map2_rows) (simp_all add: shape_def)
  ultimately show ?thesis
    using v(1) by simp
qed

theorem C6_shape_preserved_witness:
  "\<exists>R. make_PAMcorr_image_UVIS scenario_image scenario_header '''' scenario_files = Inr R
       \<and> shape R = shape scenario_image \<and> wf_ndarray R"
proof (rule C6_shape_preserved[where pam = scenario_pam and ?x0.0 = 1 and ?y0.0 = 1
      and ?ltv1.0 = "HInt (- 1)" and ?ltv2.0 = "HInt (- 1)" and chip = "HInt 1"
      and path = "''UVIS1wfc3_map.fits''"])
  show "wf_ndarray scenario_image" by code_simp
  show "wf_ndarray scenario_pam" by code_simp
  show "scenario_header ''NAXIS1'' = Some (HInt (int (ncols scenario_image)))"
    by code_simp
  show "scenario_header ''NAXIS2'' = Some (HInt (int (nrows scenario_image)))"
    by code_simp
  show "1 + int (ncols scenario_image) \<le> int (ncols scenario_pam)" by code_simp
  show "1 + int (nrows scenario_image) \<le> int (nrows scenario_pam)" by code_simp
qed (simp_all add: scenario_header_def scenario_files_def selected_map_path_def np_abs_int_def)

section \<open>Identity\<close>

text \<open>
  C7. For every valid input (as for the shape of the result) whose selected region
  \<open>pam[y0:y1, x0:x1]\<close> consists entirely
  of the value 1, the function returns an array equal to the image. The pixel type is
  any type with a product and a one; the last hypothesis says that multiplying an image
  value by one returns it, which holds for exact numbers and for doubles.
\<close>

theorem C7_identity:
  fixes data :: "('a::{times,one}) ndarray"
  assumes "wf_ndarray data" "wf_ndarray pam"
    and "scihdr ''LTV1'' = Some ltv1" "int_abs ltv1 = Inr x0"
    and "scihdr ''LTV2'' = Some ltv2" "int_abs ltv2 = Inr y0"
    and "scihdr ''NAXIS1'' = Some (HInt (int (ncols data)))"
    and "scihdr ''NAXIS2'' = Some (HInt (int (nrows data)))"
    and "scihdr ''CCDCHIP'' = Some chip" "selected_map_path chip pamdir = Some path"
    and "fs path = Some pam"
    and "x0 + int (ncols data) \<le> int (ncols pam)" "y0 + int (nrows data) \<le> int (nrows pam)"
    and "0 \<le> x0" "0 \<le> y0"
    and "\<forall>v \<in> set (cells (getslice pam y0 (y0 + int (nrows data)) x0 (x0 + int (ncols data)))).
           v = 1"
    and "\<forall>v \<in> set (cells data). v * 1 = v"
  shows "make_PAMcorr_image_UVIS data scihdr pamdir fs = Inr data"
proof -
  define region where "region = getslice pam y0 (y0 + int (nrows data)) x0 (x0 + int (ncols data))"
  note v = make_PAMcorr_valid[where fs = fs and path = path, OF assms(1-15) region_def]
  have len: "length (rows data) = length (rows region)" and c: "ncols region = ncols data"
    using v(3) by (simp_all add: shape_def nrows_def)
  have "length xs = length ys" if "(xs, ys) \<in> set (zip (rows data) (rows region))" for xs ys
  proof -
    have "xs \<in> set (rows data)" "ys \<in> set (rows region)"
      using that by (auto dest: set_zip_leftD set_zip_rightD)
    then show ?thesis
      using assms(1) v(2) c by (simp add: wf_ndarray_def list_all_iff)
  qed
  then have "map2 (map2 (*)) (rows data) (rows region) = rows data"
    using len assms(16,17) unfolding region_def[symmetric] cells_def
    by (intro map2_rows_times_one) auto
  then show ?thesis
    by (simp add: v(1))
qed

theorem C7_identity_witness:
  "make_PAMcorr_image_UVIS scenario_image scenario_header '''' unit_files = Inr scenario_image"
proof (rule C7_identity[where pam = unit_pam and ?x0.0 = 1 and ?y0.0 = 1
      and ?ltv1.0 = "HInt (- 1)" and ?ltv2.0 = "HInt (- 1)" and chip = "HInt 1"
      and path = "''UVIS1wfc3_map.fits''"])
  show "wf_ndarray scenario_image" by code_simp
  show "wf_ndarray unit_pam" by code_simp
  show "scenario_header ''NAXIS1'' = Some (HInt (int (ncols scenario_image)))"
    by code_simp
  show "scenario_header ''NAXIS2'' = Some (HInt (int (nrows scenario_image)))"
    by code_simp
  show "1 + int (ncols scenario_image) \<le> int (ncols unit_pam)" by code_simp
  show "1 + int (nrows scenario_image) \<le> int (nrows unit_pam)" by code_simp
  show "\<forall>v \<in> set (cells (getslice unit_pam 1 (1 + int (nrows scenario_image)) 1
                          (1 + int (ncols scenario_image)))). v = 1"
    by code_simp
  show "\<forall>v \<in> set (cells scenario_image). v * 1 = v"
    by code_simp
qed (simp_all add: scenario_header_def unit_files_def selected_map_path_def np_abs_int_def)

section \<open>Linearity\<close>




section \<open>No side effects\<close>

text \<open>
  C9. A call leaves every array already in the store and every file unchanged, and its
  result is a reference to a newly allocated array holding what the function computes
  from the image and the files. A second call, made after the first with another image
  of the original store, again leaves the original arrays and the files unchanged and
  computes its result from the original image and map values.
\<close>

theorem C9_no_side_effects:
  assumes "data < length (heap w)" "data2 < length (heap w)"
    and "make_PAMcorr_image_UVIS_st data scihdr pamdir w = (res, w')"
    and "make_PAMcorr_image_UVIS_st data2 scihdr2 pamdir2 w' = (res2, w'')"
  shows "prefix (heap w) (heap w') \<and> files w' = files w
       \<and> (\<forall>r. res = Inr r \<longrightarrow> length (heap w) \<le> r \<and> r < length (heap w'))
       \<and> map_sum id ((!) (heap w')) res
           = make_PAMcorr_image_UVIS (heap w ! data) scihdr pamdir (files w)
       \<and> prefix (heap w) (heap w'') \<and> files w'' = files w
       \<and> (\<forall>r. res2 = Inr r \<longrightarrow> length (heap w') \<le> r \<and> r < length (heap w''))
       \<and> map_sum id ((!) (heap w'')) res2
           = make_PAMcorr_image_UVIS (heap w ! data2) scihdr2 pamdir2 (files w)"
proof -
  note f1 = make_PAMcorr_st_frame[OF assms(1,3)]
  have p1: "prefix (heap w) (heap w')" and fs1: "files w' = files w"
    using f1 by simp_all
  have d2: "data2 < length (heap w')" and n2: "heap w' ! data2 = heap w ! data2"
    using p1 assms(2) by (auto simp: prefix_def nth_append)
  note f2 = make_PAMcorr_st_frame[OF d2 assms(4)]
  have p2: "prefix (heap w) (heap w'')"
    using p1 f2 by (auto intro: prefix_order.trans)
  have v1: "map_sum id ((!) (heap w')) res
           = make_PAMcorr_image_UVIS (heap w ! data) scihdr pamdir (files w)"
    using f1 by (cases res) simp_all
  have v2: "map_sum id ((!) (heap w'')) res2
           = make_PAMcorr_image_UVIS (heap w ! data2) scihdr2 pamdir2 (files w)"
    using f2 by (cases res2) (simp_all add: n2 fs1)
  have r1: "\<forall>r. res = Inr r \<longrightarrow> length (heap w) \<le> r \<and> r < length (heap w')"
    using f1 by auto
  have r2: "\<forall>r. res2 = Inr r \<longrightarrow> length (heap w') \<le> r \<and> r < length (heap w'')"
    using f2 by auto
  have fs2: "files w'' = files w"
    using f2 fs1 by simp
  show ?thesis
    using p1 fs1 r1 v1 p2 fs2 r2 v2 by blast
qed

theorem C9_no_side_effects_witness:
  "prefix (heap shared_world) (heap (snd first_call))
   \<and> files (snd first_call) = files shared_world
   \<and> fst first_call = Inr 4
   \<and> length (heap shared_world) \<le> 4 \<and> 4 < length (heap (snd first_call))
   \<and> map_sum id ((!) (heap (snd first_call))) (fst first_call)
       = make_PAMcorr_image_UVIS (heap shared_world ! 0) scenario_header '''' (files shared_world)
   \<and> prefix (heap shared_world) (heap (snd second_call))
   \<and> files (snd second_call) = files shared_world
   \<and> fst second_call = Inr 7
   \<and> length (heap (snd first_call)) \<le> 7 \<and> 7 < length (heap (snd second_call))
   \<and> map_sum id ((!) (heap (snd second_call))) (fst second_call)
       = make_PAMcorr_image_UVIS (heap shared_world ! 1) scenario_header '''' (files shared_world)"
proof -
  have "0 < length (heap shared_world)" "1 < length (heap shared_world)"
    by (simp_all add: shared_world_def)
  moreover have "make_PAMcorr_image_UVIS_st 0 scenario_header '''' shared_world
          = (fst first_call, snd first_call)"
    by (simp add: first_call_def)
  moreover have "make_PAMcorr_image_UVIS_st 1 scenario_header '''' (snd first_call)
          = (fst second_call, snd second_call)"
    by (simp add: second_call_def)
  ultimately show ?thesis
    using C9_no_side_effects[of 0 shared_world 1 scenario_header "''''" "fst first_call"
        "snd first_call" scenario_header "''''" "fst second_call" "snd second_call"]
      calls_evaluated(1,2)
    by simp
qed

section \<open>Determinism\<close>

text \<open>
  C10. Two runs on the same image whose headers agree on the five cards \<open>LTV1\<close>, \<open>LTV2\<close>,
  \<open>NAXIS1\<close>, \<open>NAXIS2\<close>, \<open>CCDCHIP\<close> and whose selected maps have the same contents return
  the same array or fail with the same exception, whatever other cards the headers
  hold and wherever the maps are stored.
\<close>

theorem C10_determinism:
  assumes "\<forall>key \<in> {''LTV1'', ''LTV2'', ''NAXIS1'', ''NAXIS2'', ''CCDCHIP''}. h1 key = h2 key"
    and "selected_map h1 pamdir1 fs1 = selected_map h2 pamdir2 fs2"
  shows "make_PAMcorr_image_UVIS data h1 pamdir1 fs1 = make_PAMcorr_image_UVIS data h2 pamdir2 fs2"
proof -
  have c: "subarray_corners h1 = subarray_corners h2"
    using assms(1) by (intro subarray_corners_cong) simp_all
  have k: "h1 ''CCDCHIP'' = h2 ''CCDCHIP''"
    using assms(1) by simp
  show ?thesis
    using assms(2) k
    by (auto simp: make_PAMcorr_image_UVIS_def c getitem_def selected_map_def pam_product_def
        selected_map_path_def fits_getdata_def split: sum.splits option.splits if_splits)
qed

theorem C10_determinism_witness:
  "make_PAMcorr_image_UVIS scenario_image scenario_header '''' scenario_files
     = make_PAMcorr_image_UVIS scenario_image annotated_header ''pam/'' moved_files"
proof (rule C10_determinism)
  show "\<forall>key \<in> {''LTV1'', ''LTV2'', ''NAXIS1'', ''NAXIS2'', ''CCDCHIP''}.
          scenario_header key = annotated_header key"
    by (simp add: annotated_header_def)
  show "selected_map scenario_header '''' scenario_files
          = selected_map annotated_header ''pam/'' moved_files"
    by (simp add: selected_map_def annotated_header_def scenario_header_def
        selected_map_path_def scenario_files_def moved_files_def)
qed

end
